theory Spec2Isabelle
  imports Main
begin

section \<open>Values shared by the request builder and the response view\<close>

text \<open>
  Byte slices and Go strings are byte lists. An error value is its message. The libraries
  the package calls (strings, net/url, net/http, mime, mime/multipart, os, io) are
  collaborators: each call is a function handed to the model, so every theorem holds for
  whatever the library answers. Calls to the package logger are left out. A nil pointer
  is None, and a call that dereferences one panics: it returns None instead of a result.
\<close>

type_synonym bytes = string

datatype error = Err string

record url =
  Scheme :: string
  Host :: string
  Path :: string
  RawQuery :: string
  Fragment :: string

datatype tls_config = TLSConfig (InsecureSkipVerify: bool)

text \<open>
  Every call of a collaborator that touches the network, a stream or the file system is
  logged in the world's trace, in the order the code makes it.
\<close>

datatype event =
    EvUrlParse string
  | EvClientDo string
  | EvBodyReadAll
  | EvBodyClose
  | EvOpen string
  | EvFileClose string
  | EvCreate string
  | EvWrite string
  | EvSync string

text \<open>
  http.Transport objects are reached through pointers and shared (New hands every builder
  the process-wide default transport), so they live in a store: a pointer is an index into
  \<open>transports\<close>, and allocation appends. Of the transport's fields the package
  writes TLSClientConfig and Proxy; MaxIdleConns stands for the fields callers set.
\<close>

record Transport =
  TLSClientConfig :: "tls_config option"
  Proxy :: "url option"
  MaxIdleConns :: int

record world =
  transports :: "Transport list"
  files :: "string \<rightharpoonup> bytes"
  trace :: "event list"

definition emit :: "event \<Rightarrow> world \<Rightarrow> world" where
  "emit e w = w\<lparr>trace := trace w @ [e]\<rparr>"

definition zero_Transport :: Transport where
  "zero_Transport = \<lparr>TLSClientConfig = None, Proxy = None, MaxIdleConns = 0\<rparr>"

text \<open>The address of http.DefaultTransport in the store.\<close>

definition DefaultTransport :: nat where
  "DefaultTransport = 0"

subsection \<open>strings.ToLower\<close>

text \<open>
  strings.ToLower first scans the string. When every byte is below \<open>utf8.RuneSelf\<close>
  (ASCII text) it adds \<open>'a' - 'A'\<close> to every byte in \<open>'A'..'Z'\<close> and keeps
  the others. Otherwise it returns \<open>strings.Map(unicode.ToLower, s)\<close>, which decodes
  the text rune by rune and maps each rune through the Unicode tables; that call is the
  collaborator \<open>unicodeLower\<close>.
\<close>

definition isUpper :: "char \<Rightarrow> bool" where
  "isUpper c = (65 \<le> (of_char c :: nat) \<and> (of_char c :: nat) \<le> 90)"

definition isLower :: "char \<Rightarrow> bool" where
  "isLower c = (97 \<le> (of_char c :: nat) \<and> (of_char c :: nat) \<le> 122)"

definition lowerByte :: "char \<Rightarrow> char" where
  "lowerByte c = (if isUpper c then char_of ((of_char c :: nat) + 32) else c)"

definition upperByte :: "char \<Rightarrow> char" where
  "upperByte c = (if isLower c then char_of ((of_char c :: nat) - 32) else c)"

definition isASCII :: "string \<Rightarrow> bool" where
  "isASCII s = list_all (\<lambda>c. (of_char c :: nat) < 128) s"

definition ToLower :: "(string \<Rightarrow> string) \<Rightarrow> string \<Rightarrow> string" where
  "ToLower unicodeLower s = (if isASCII s then map lowerByte s else unicodeLower s)"

subsection \<open>http.Header\<close>

text \<open>
  A header is a map from canonical keys to value lists. Set and Get canonicalise the key
  with textproto.CanonicalMIMEHeaderKey: a key that holds a byte which is not a token
  byte is kept as it is; otherwise the first letter and every letter after a hyphen is
  upper-cased and every other letter lower-cased.
\<close>

type_synonym header = "string \<rightharpoonup> string list"

definition validHeaderFieldByte :: "char \<Rightarrow> bool" where
  "validHeaderFieldByte c =
     (isUpper c \<or> isLower c \<or> (48 \<le> (of_char c :: nat) \<and> (of_char c :: nat) \<le> 57)
      \<or> c \<in> set ''!#$%&*+-.^_`|~'' \<or> of_char c = (39 :: nat))"

fun canonicalise :: "bool \<Rightarrow> string \<Rightarrow> string" where
  "canonicalise upper [] = []"
| "canonicalise upper (c # cs) =
     (let c' = (if upper then upperByte c else lowerByte c)
      in c' # canonicalise (c' = CHR ''-'') cs)"

definition CanonicalMIMEHeaderKey :: "string \<Rightarrow> string" where
  "CanonicalMIMEHeaderKey s =
     (if list_all validHeaderFieldByte s then canonicalise True s else s)"

definition Header_Set :: "header \<Rightarrow> string \<Rightarrow> string \<Rightarrow> header" where
  "Header_Set h k v = h(CanonicalMIMEHeaderKey k \<mapsto> [v])"

definition Header_Get :: "header \<Rightarrow> string \<Rightarrow> string" where
  "Header_Get h k =
     (case h (CanonicalMIMEHeaderKey k) of
        None \<Rightarrow> []
      | Some [] \<Rightarrow> []
      | Some (v # _) \<Rightarrow> v)"

section \<open>The request builder (request.go)\<close>

text \<open>
  A reader over a byte slice is the slice; GetBody is the slice its closure re-reads, or
  None for a nil function. ContentLength is an int64 holding a length, far from its bounds.
  The builder holds pointers to its request and its client. New allocates both, with a
  made header map; a builder that did not come from New (\<open>new(Req)\<close>, or the literal
  \<open>&Req{err: ...}\<close> of the tests) has neither, and a request built elsewhere may have
  a nil header map. Writing a field through a nil pointer and storing into a nil map
  panic. The client's transport is a pointer as well (SetTransport accepts nil).
\<close>

record Request =
  Method :: string
  Header :: "header option"
  Body :: "bytes option"
  GetBody :: "bytes option"
  ContentLength :: int
  URL :: "url option"

record Client =
  ClientTransport :: "nat option"
  Timeout :: int

record Req =
  request :: "Request option"
  client :: "Client option"
  address :: string
  err :: "error option"

text \<open>The response the transport hands back; \<open>'s\<close> is the state of its body stream.\<close>

record 's http_response =
  StatusCode :: int
  RespHeader :: "header option"
  RespBody :: "'s option"

record 's Response =
  resp :: "'s http_response option"
  data :: bytes

text \<open>
  The collaborators of dispatch: url.Parse, http.Client.Do and the Unicode branch of
  strings.ToLower.
\<close>

record 's net_ops =
  url_Parse :: "string \<Rightarrow> error + url"
  client_Do :: "Client \<Rightarrow> Transport list \<Rightarrow> Request \<Rightarrow> error + 's http_response"
  unicode_lower :: "string \<Rightarrow> string"

definition second :: int where
  "second = 1000000000"

definition New :: "string \<Rightarrow> Req" where
  "New addr =
     \<lparr>request = Some \<lparr>Method = ''GET'', Header = Some Map.empty, Body = None, GetBody = None,
                       ContentLength = 0, URL = None\<rparr>,
      client = Some \<lparr>ClientTransport = Some DefaultTransport, Timeout = second * 30\<rparr>,
      address = addr,
      err = None\<rparr>"

text \<open>
  SetTLSConfig writes through the client's transport pointer, so it changes the shared
  transport object.
\<close>

definition SetTLSConfig :: "tls_config option \<Rightarrow> Req \<Rightarrow> world \<Rightarrow> (Req \<times> world) option" where
  "SetTLSConfig c r w =
     (case client r of
        None \<Rightarrow> None
      | Some cl \<Rightarrow>
          (case ClientTransport cl of
             None \<Rightarrow> None
           | Some p \<Rightarrow>
               if p < length (transports w)
               then Some (r, w\<lparr>transports := (transports w)[p := (transports w ! p)\<lparr>TLSClientConfig := c\<rparr>]\<rparr>)
               else None))"

definition SetTimeout :: "int \<Rightarrow> Req \<Rightarrow> Req option" where
  "SetTimeout d r =
     (case client r of
        None \<Rightarrow> None
      | Some cl \<Rightarrow> Some (r\<lparr>client := Some (cl\<lparr>Timeout := d\<rparr>)\<rparr>))"

text \<open>The argument map is the list of its entries in the order the range loop visits them.\<close>

fun set_header_loop :: "header \<Rightarrow> (string \<times> string) list \<Rightarrow> header" where
  "set_header_loop h [] = h"
| "set_header_loop h ((k, v) # kvs) = set_header_loop (Header_Set h k v) kvs"

definition SetHeaders :: "(string \<times> string) list \<Rightarrow> Req \<Rightarrow> Req option" where
  "SetHeaders headers r =
     (if length headers > 0
      then (case request r of
              None \<Rightarrow> None
            | Some rq \<Rightarrow>
                (case Header rq of
                   None \<Rightarrow> None
                 | Some h \<Rightarrow> Some (r\<lparr>request := Some (rq\<lparr>Header := Some (set_header_loop h headers)\<rparr>)\<rparr>)))
      else Some r)"

definition SetContentType :: "string \<Rightarrow> Req \<Rightarrow> Req option" where
  "SetContentType contentType r =
     (case request r of
        None \<Rightarrow> None
      | Some rq \<Rightarrow>
          (case Header rq of
             None \<Rightarrow> None
           | Some h \<Rightarrow>
               Some (r\<lparr>request := Some (rq\<lparr>Header := Some (Header_Set h ''Content-Type'' contentType)\<rparr>)\<rparr>)))"

definition SetTransport :: "nat option \<Rightarrow> Req \<Rightarrow> Req option" where
  "SetTransport transport r =
     (case client r of
        None \<Rightarrow> None
      | Some cl \<Rightarrow> Some (r\<lparr>client := Some (cl\<lparr>ClientTransport := transport\<rparr>)\<rparr>))"

definition SetBody :: "bytes \<Rightarrow> Req \<Rightarrow> Req option" where
  "SetBody d r =
     (case request r of
        None \<Rightarrow> None
      | Some rq \<Rightarrow>
          Some (r\<lparr>request := Some (rq\<lparr>Body := Some d, GetBody := Some d,
                                      ContentLength := int (length d)\<rparr>)\<rparr>))"

definition SetBodyXML :: "Req \<Rightarrow> Req option" where
  "SetBodyXML r = SetContentType ''application/xml; charset=UTF-8'' r"

text \<open>
  SetProxy parses its argument first; only when that succeeds does it touch the client.
\<close>

definition SetProxy :: "'s net_ops \<Rightarrow> string \<Rightarrow> Req \<Rightarrow> world \<Rightarrow> (Req \<times> world) option" where
  "SetProxy ops u r w =
     (let w1 = emit (EvUrlParse u) w
      in case url_Parse ops u of
           Inl e \<Rightarrow> Some (r\<lparr>err := Some e\<rparr>, w1)
         | Inr proxyURL \<Rightarrow>
             (case client r of
                None \<Rightarrow> None
              | Some cl \<Rightarrow>
                  Some (r\<lparr>client := Some (cl\<lparr>ClientTransport := Some (length (transports w1))\<rparr>)\<rparr>,
                        w1\<lparr>transports := transports w1 @ [zero_Transport\<lparr>Proxy := Some proxyURL\<rparr>]\<rparr>)))"

subsection \<open>Dispatch\<close>

definition generateURL :: "'s net_ops \<Rightarrow> string \<Rightarrow> world \<Rightarrow> (error + url) \<times> world" where
  "generateURL ops addr w =
     (let a = ToLower (unicode_lower ops) addr;
          w1 = emit (EvUrlParse a) w
      in case url_Parse ops a of
           Inl e \<Rightarrow> (Inl e, w1)
         | Inr parsedURL \<Rightarrow> (Inr parsedURL, w1))"

definition GetBody_nil_error :: error where
  "GetBody_nil_error =
     Err ''request.GetBody cannot be nil because it prevents redirection when content length>0''"

text \<open>
  send reads the request after the err check and calls the client after the URL has
  been generated, so a missing request panics once err is nil and a missing client once
  the address has parsed.
\<close>

definition send ::
  "'s net_ops \<Rightarrow> string \<Rightarrow> Req \<Rightarrow> world \<Rightarrow> ((error + 's Response) \<times> Req \<times> world) option" where
  "send ops method r w =
     (case err r of
        Some e \<Rightarrow> Some (Inl e, r, w)
      | None \<Rightarrow>
          (case request r of
             None \<Rightarrow> None
           | Some rq \<Rightarrow>
               if ContentLength rq > 0 \<and> GetBody rq = None
               then Some (Inl GetBody_nil_error, r, w)
               else
                 (let r1 = r\<lparr>request := Some (rq\<lparr>Method := method\<rparr>)\<rparr>
                  in (case generateURL ops (address r1) w of
                        (Inl e, w1) \<Rightarrow> Some (Inl e, r1, w1)
                      | (Inr u, w1) \<Rightarrow>
                          (let rq2 = rq\<lparr>Method := method, URL := Some u\<rparr>;
                               r2 = r1\<lparr>request := Some rq2\<rparr>
                           in (case client r2 of
                                 None \<Rightarrow> None
                               | Some cl \<Rightarrow>
                                   (let w2 = emit (EvClientDo method) w1
                                    in (case client_Do ops cl (transports w2) rq2 of
                                          Inl e \<Rightarrow> Some (Inl e, r2, w2)
                                        | Inr rsp \<Rightarrow>
                                            Some (Inr \<lparr>resp = Some rsp, data = []\<rparr>, r2, w2)))))))))"

definition Get ::
  "'s net_ops \<Rightarrow> Req \<Rightarrow> world \<Rightarrow> ((error + 's Response) \<times> Req \<times> world) option" where
  "Get ops r w = send ops ''GET'' r w"

definition Post ::
  "'s net_ops \<Rightarrow> Req \<Rightarrow> world \<Rightarrow> ((error + 's Response) \<times> Req \<times> world) option" where
  "Post ops r w = send ops ''POST'' r w"

text \<open>PostJSON sets the content type before it hands over to send.\<close>

definition PostJSON ::
  "'s net_ops \<Rightarrow> Req \<Rightarrow> world \<Rightarrow> ((error + 's Response) \<times> Req \<times> world) option" where
  "PostJSON ops r w =
     (case SetContentType ''application/json'' r of
        None \<Rightarrow> None
      | Some r1 \<Rightarrow> send ops ''POST'' r1 w)"

definition Put ::
  "'s net_ops \<Rightarrow> Req \<Rightarrow> world \<Rightarrow> ((error + 's Response) \<times> Req \<times> world) option" where
  "Put ops r w = send ops ''PUT'' r w"

definition Delete ::
  "'s net_ops \<Rightarrow> Req \<Rightarrow> world \<Rightarrow> ((error + 's Response) \<times> Req \<times> world) option" where
  "Delete ops r w = send ops ''DELETE'' r w"

subsection \<open>SetForm\<close>

text \<open>
  The multipart writer over the local buffer is a collaborator with a state \<open>'w\<close>:
  NewWriter gives the fresh writer, every operation returns its error or the writer after
  the call, Bytes reads the buffer under it. The files the form reads are answered by the
  operating system: whether a path opens, and what reading it to the end delivers.
\<close>

record 'w multipart_ops =
  mp_NewWriter :: "'w"
  mp_CreateFormFile :: "'w \<Rightarrow> string \<Rightarrow> string \<Rightarrow> error + 'w"
  mp_PartWrite :: "'w \<Rightarrow> bytes \<Rightarrow> error + 'w"
  mp_WriteField :: "'w \<Rightarrow> string \<Rightarrow> string \<Rightarrow> error + 'w"
  mp_Close :: "'w \<Rightarrow> error + 'w"
  mp_Bytes :: "'w \<Rightarrow> bytes"
  mp_FormDataContentType :: "'w \<Rightarrow> string"

record os_ops =
  os_Open :: "string \<Rightarrow> error option"
  file_Read :: "string \<Rightarrow> error + bytes"
  os_Create :: "string \<Rightarrow> error option"
  file_Write :: "string \<Rightarrow> bytes \<Rightarrow> (error \<times> nat) option"
  file_Sync :: "string \<Rightarrow> error option"

text \<open>
  io.Copy(part, f) reads the opened file and writes what it read into the part. The
  deferred f.Close runs on every path after a successful Open; its error is only logged.
\<close>

definition io_Copy_part :: "'w multipart_ops \<Rightarrow> os_ops \<Rightarrow> 'w \<Rightarrow> string \<Rightarrow> error + 'w" where
  "io_Copy_part mp os part path =
     (case file_Read os path of
        Inl e \<Rightarrow> Inl e
      | Inr content \<Rightarrow> mp_PartWrite mp part content)"

definition createFormFile ::
  "'w multipart_ops \<Rightarrow> os_ops \<Rightarrow> 'w \<Rightarrow> string \<Rightarrow> string \<Rightarrow> world \<Rightarrow> (error + 'w) \<times> world" where
  "createFormFile mp os wr key val w =
     (case mp_CreateFormFile mp wr key val of
        Inl e \<Rightarrow> (Inl e, w)
      | Inr part \<Rightarrow>
          (case os_Open os val of
             Some e \<Rightarrow> (Inl e, emit (EvOpen val) w)
           | None \<Rightarrow>
               (case io_Copy_part mp os part val of
                  Inl e \<Rightarrow> (Inl e, emit (EvFileClose val) (emit (EvOpen val) w))
                | Inr wr1 \<Rightarrow> (Inr wr1, emit (EvFileClose val) (emit (EvOpen val) w)))))"

text \<open>The two nested range loops over the files, and the two over the fields.\<close>

fun form_file ::
  "'w multipart_ops \<Rightarrow> os_ops \<Rightarrow> 'w \<Rightarrow> (string \<times> string) list \<Rightarrow> world \<Rightarrow> (error + 'w) \<times> world" where
  "form_file mp os wr [] w = (Inr wr, w)"
| "form_file mp os wr ((key, val) # kvs) w =
     (case createFormFile mp os wr key val w of
        (Inl e, w1) \<Rightarrow> (Inl e, w1)
      | (Inr wr1, w1) \<Rightarrow> form_file mp os wr1 kvs w1)"

fun form_files ::
  "'w multipart_ops \<Rightarrow> os_ops \<Rightarrow> 'w \<Rightarrow> (string \<times> string) list list \<Rightarrow> world \<Rightarrow> (error + 'w) \<times> world" where
  "form_files mp os wr [] w = (Inr wr, w)"
| "form_files mp os wr (file # fs) w =
     (case form_file mp os wr file w of
        (Inl e, w1) \<Rightarrow> (Inl e, w1)
      | (Inr wr1, w1) \<Rightarrow> form_files mp os wr1 fs w1)"

fun form_field :: "'w multipart_ops \<Rightarrow> 'w \<Rightarrow> (string \<times> string) list \<Rightarrow> error + 'w" where
  "form_field mp wr [] = Inr wr"
| "form_field mp wr ((k, v) # kvs) =
     (case mp_WriteField mp wr k v of
        Inl e \<Rightarrow> Inl e
      | Inr wr1 \<Rightarrow> form_field mp wr1 kvs)"

fun form_fields :: "'w multipart_ops \<Rightarrow> 'w \<Rightarrow> (string \<times> string) list list \<Rightarrow> error + 'w" where
  "form_fields mp wr [] = Inr wr"
| "form_fields mp wr (field # fs) =
     (case form_field mp wr field of
        Inl e \<Rightarrow> Inl e
      | Inr wr1 \<Rightarrow> form_fields mp wr1 fs)"

text \<open>
  After the writer is closed SetForm stores the body, GetBody and the content length in
  the request and sets the Content-Type header.
\<close>

definition install_form :: "'w multipart_ops \<Rightarrow> 'w \<Rightarrow> Req \<Rightarrow> Req option" where
  "install_form mp wr r =
     (case request r of
        None \<Rightarrow> None
      | Some rq \<Rightarrow>
          (case Header rq of
             None \<Rightarrow> None
           | Some h \<Rightarrow>
               Some (r\<lparr>request := Some (rq
                  \<lparr>Body := Some (mp_Bytes mp wr),
                   GetBody := Some (mp_Bytes mp wr),
                   ContentLength := int (length (mp_Bytes mp wr)),
                   Header := Some (Header_Set h ''Content-Type'' (mp_FormDataContentType mp wr))\<rparr>)\<rparr>)))"

definition SetForm ::
  "'w multipart_ops \<Rightarrow> os_ops \<Rightarrow> (string \<times> string) list list \<Rightarrow> (string \<times> string) list list
     \<Rightarrow> Req \<Rightarrow> world \<Rightarrow> (Req \<times> world) option" where
  "SetForm mp os fileMaps fieldMaps r w =
     (if err r \<noteq> None then Some (r, w)
      else
        (case form_files mp os (mp_NewWriter mp) fileMaps w of
           (Inl e, w1) \<Rightarrow> Some (r\<lparr>err := Some e\<rparr>, w1)
         | (Inr wr1, w1) \<Rightarrow>
             (case form_fields mp wr1 fieldMaps of
                Inl e \<Rightarrow> Some (r\<lparr>err := Some e\<rparr>, w1)
              | Inr wr2 \<Rightarrow>
                  (case mp_Close mp wr2 of
                     Inl e \<Rightarrow> Some (r\<lparr>err := Some e\<rparr>, w1)
                   | Inr wr3 \<Rightarrow>
                       (case install_form mp wr3 r of
                          None \<Rightarrow> None
                        | Some r1 \<Rightarrow> Some (r1, w1))))))"

section \<open>The response view\<close>

text \<open>
  The body of an http.Response is an io.ReadCloser: a stream with a state \<open>'s\<close>, read to
  its end by ioutil.ReadAll and closed by Close, each answering with its result and the
  stream after the call. The receiver is a non-nil view.
\<close>

record 's stream_ops =
  ioutil_ReadAll :: "'s \<Rightarrow> (error + bytes) \<times> 's"
  body_Close :: "'s \<Rightarrow> error option \<times> 's"

record lib_ops =
  mime_ParseMediaType :: "string \<Rightarrow> error + (string \<times> (string \<rightharpoonup> string))"
  path_Join :: "string \<Rightarrow> string \<Rightarrow> string"

definition StatusCode_of :: "'s Response \<Rightarrow> int" where
  "StatusCode_of r = (case resp r of None \<Rightarrow> 0 | Some rs \<Rightarrow> StatusCode rs)"

definition Headers :: "'s Response \<Rightarrow> header option" where
  "Headers r = (case resp r of None \<Rightarrow> None | Some rs \<Rightarrow> RespHeader rs)"

definition set_stream :: "'s \<Rightarrow> 's Response \<Rightarrow> 's Response" where
  "set_stream s r = r\<lparr>resp := map_option (\<lambda>rs. rs\<lparr>RespBody := Some s\<rparr>) (resp r)\<rparr>"

definition Body_nil_error :: error where
  "Body_nil_error = Err (''http.Response'' @ [char_of (39 :: nat)] @ ''s Body is nil'')"

definition readBody ::
  "'s stream_ops \<Rightarrow> 's Response \<Rightarrow> world \<Rightarrow> (error + bytes) \<times> 's Response \<times> world" where
  "readBody so r w =
     (if length (data r) \<noteq> 0 then (Inr (data r), r, w)
      else
        (case resp r of
           None \<Rightarrow> (Inl (Err ''http.Response is nil''), r, w)
         | Some rs \<Rightarrow>
             (case RespBody rs of
                None \<Rightarrow> (Inl Body_nil_error, r, w)
              | Some s \<Rightarrow>
                  (case ioutil_ReadAll so s of
                     (Inl e, s1) \<Rightarrow> (Inl e, set_stream s1 r, emit EvBodyReadAll w)
                   | (Inr b, s1) \<Rightarrow>
                       (case body_Close so s1 of
                          (Some e, s2) \<Rightarrow>
                            (Inl e, set_stream s2 (r\<lparr>data := b\<rparr>), emit EvBodyClose (emit EvBodyReadAll w))
                        | (None, s2) \<Rightarrow>
                            (Inr b, set_stream s2 (r\<lparr>data := b\<rparr>), emit EvBodyClose (emit EvBodyReadAll w)))))))"

definition Response_Body ::
  "'s stream_ops \<Rightarrow> 's Response \<Rightarrow> world \<Rightarrow> (error + bytes) \<times> 's Response \<times> world" where
  "Response_Body so r w =
     (case readBody so r w of
        (Inl e, r1, w1) \<Rightarrow> (Inl e, r1, w1)
      | (Inr body, r1, w1) \<Rightarrow> (Inr body, r1, w1))"

definition Response_Close ::
  "'s stream_ops \<Rightarrow> 's Response \<Rightarrow> world \<Rightarrow> error option \<times> 's Response \<times> world" where
  "Response_Close so r w =
     (case resp r of
        None \<Rightarrow> (None, r, w)
      | Some rs \<Rightarrow>
          (case RespBody rs of
             None \<Rightarrow> (None, r, w)
           | Some s \<Rightarrow>
               (case body_Close so s of
                  (Some e, s1) \<Rightarrow> (Some e, set_stream s1 r, emit EvBodyClose w)
                | (None, s1) \<Rightarrow> (None, set_stream s1 r, emit EvBodyClose w))))"

text \<open>
  os.Create truncates or creates the file; io.Copy then writes the bytes, or on failure a
  prefix of them; Sync changes no content; the deferred Close runs once the file is open.
\<close>

definition empty_file_error :: "string \<Rightarrow> error" where
  "empty_file_error filePath =
     Err (''Downloaded file is empty. Can not save empty response to file '' @ filePath)"

definition write_file :: "os_ops \<Rightarrow> string \<Rightarrow> bytes \<Rightarrow> world \<Rightarrow> error option \<times> world" where
  "write_file os filePath d w =
     (case os_Create os filePath of
        Some e \<Rightarrow> (Some e, emit (EvCreate filePath) w)
      | None \<Rightarrow>
          (let w1 = (emit (EvCreate filePath) w)\<lparr>files := (files w)(filePath \<mapsto> [])\<rparr>
           in (case file_Write os filePath d of
                 Some (e, n) \<Rightarrow>
                   (Some e, emit (EvFileClose filePath)
                      ((emit (EvWrite filePath) w1)\<lparr>files := (files w)(filePath \<mapsto> take n d)\<rparr>))
               | None \<Rightarrow>
                   (let w2 = (emit (EvWrite filePath) w1)\<lparr>files := (files w)(filePath \<mapsto> d)\<rparr>
                    in (file_Sync os filePath,
                        emit (EvFileClose filePath) (emit (EvSync filePath) w2))))))"

definition SaveFile ::
  "'s stream_ops \<Rightarrow> os_ops \<Rightarrow> string \<Rightarrow> 's Response \<Rightarrow> world \<Rightarrow> error option \<times> 's Response \<times> world" where
  "SaveFile so os filePath r w =
     (case readBody so r w of
        (Inl e, r1, w1) \<Rightarrow> (Some e, r1, w1)
      | (Inr d, r1, w1) \<Rightarrow>
          if length d = 0 then (Some (empty_file_error filePath), r1, w1)
          else (case write_file os filePath d w1 of (res, w2) \<Rightarrow> (res, r1, w2)))"

definition param :: "(string \<rightharpoonup> string) \<Rightarrow> string \<Rightarrow> string" where
  "param params k = (case params k of None \<Rightarrow> [] | Some v \<Rightarrow> v)"

definition DownloadFile ::
  "'s stream_ops \<Rightarrow> os_ops \<Rightarrow> lib_ops \<Rightarrow> string \<Rightarrow> 's Response \<Rightarrow> world
     \<Rightarrow> (string \<times> string \<times> error option) \<times> 's Response \<times> world" where
  "DownloadFile so os lib downloadDir r w =
     (case Headers r of
        None \<Rightarrow> (([], [], Some (Err ''http response headers missing'')), r, w)
      | Some headers \<Rightarrow>
          (let contentType = Header_Get headers ''Content-Type'';
               disposition = Header_Get headers ''Content-Disposition''
           in if disposition = []
              then ((contentType, [], Some (Err ''content-disposition header missing'')), r, w)
              else
                (case mime_ParseMediaType lib disposition of
                   Inl e \<Rightarrow> ((contentType, [], Some e), r, w)
                 | Inr (mt, params) \<Rightarrow>
                     (let fileName = param params ''filename''
                      in if fileName = []
                         then ((contentType, [], Some (Err ''filename missing in content-disposition'')), r, w)
                         else
                           (let filePath = path_Join lib downloadDir fileName
                            in (case SaveFile so os filePath r w of
                                  (Some e, r1, w1) \<Rightarrow> ((contentType, [], Some e), r1, w1)
                                | (None, r1, w1) \<Rightarrow> ((contentType, filePath, None), r1, w1)))))))"

section \<open>Reading the store, and sample collaborators\<close>

text \<open>The transport object the client points at, and whether an address is in use.\<close>

definition client_transport :: "Req \<Rightarrow> world \<Rightarrow> Transport option" where
  "client_transport r w =
     (case client r of
        None \<Rightarrow> None
      | Some cl \<Rightarrow>
          (case ClientTransport cl of
             None \<Rightarrow> None
           | Some p \<Rightarrow> if p < length (transports w) then Some (transports w ! p) else None))"

definition allocated :: "world \<Rightarrow> nat \<Rightarrow> bool" where
  "allocated w p = (p < length (transports w))"



text \<open>
  Concrete collaborators on which the theorems below are instantiated. The parser
  answers as url.Parse does on an address that is a plain path (no scheme, query,
  fragment, colon or control byte, not starting with two slashes): it rejects a percent
  sign that is not followed by two hexadecimal digits, naming the address and the
  offending escape, and otherwise delivers the path with its escapes decoded. Other
  addresses are outside its scope and are refused.
\<close>

definition dq :: char where
  "dq = CHR 0x22"

definition quoted :: "string \<Rightarrow> string" where
  "quoted s = dq # s @ [dq]"

definition ishex :: "char \<Rightarrow> bool" where
  "ishex c =
     ((48 \<le> (of_char c :: nat) \<and> (of_char c :: nat) \<le> 57)
      \<or> (97 \<le> (of_char c :: nat) \<and> (of_char c :: nat) \<le> 102)
      \<or> (65 \<le> (of_char c :: nat) \<and> (of_char c :: nat) \<le> 70))"

definition unhex :: "char \<Rightarrow> nat" where
  "unhex c =
     (if 48 \<le> (of_char c :: nat) \<and> (of_char c :: nat) \<le> 57 then of_char c - 48
      else if 97 \<le> (of_char c :: nat) \<and> (of_char c :: nat) \<le> 102 then of_char c - 97 + 10
      else of_char c - 65 + 10)"

fun bad_escape :: "string \<Rightarrow> string option" where
  "bad_escape [] = None"
| "bad_escape (c # h # l # rest) =
     (if c = CHR ''%''
      then (if ishex h \<and> ishex l then bad_escape rest else Some [c, h, l])
      else bad_escape (h # l # rest))"
| "bad_escape (c # cs) = (if c = CHR ''%'' then Some (c # cs) else bad_escape cs)"

fun unescape :: "string \<Rightarrow> string" where
  "unescape [] = []"
| "unescape (c # h # l # rest) =
     (if c = CHR ''%''
      then char_of (16 * unhex h + unhex l) # unescape rest
      else c # unescape (h # l # rest))"
| "unescape (c # cs) = c # unescape cs"

definition plain_path :: "string \<Rightarrow> bool" where
  "plain_path s =
     (list_all (\<lambda>c. c \<notin> set ''#?:'' \<and> 32 \<le> (of_char c :: nat) \<and> (of_char c :: nat) \<noteq> 127) s
      \<and> take 2 s \<noteq> ''//'')"

definition sample_parse_error :: "string \<Rightarrow> string \<Rightarrow> error" where
  "sample_parse_error s x = Err (''parse '' @ quoted s @ '': invalid URL escape '' @ quoted x)"

definition sample_parse :: "string \<Rightarrow> error + url" where
  "sample_parse s =
     (if plain_path s
      then (case bad_escape s of
              Some x \<Rightarrow> Inl (sample_parse_error s x)
            | None \<Rightarrow> Inr \<lparr>Scheme = [], Host = [], Path = unescape s, RawQuery = [], Fragment = []\<rparr>)
      else Inl (Err ''sample parser: not a plain path''))"

text \<open>
  The Unicode branch of ToLower on valid UTF-8 text whose runes are below U+0100: the
  letters U+00C0 to U+00DE without the multiplication sign U+00D7, encoded as 0xC3
  followed by 0x80 to 0x9E, move up by 0x20; ASCII letters are lower-cased; every other
  rune is kept.
\<close>

fun sample_unicode_lower :: "string \<Rightarrow> string" where
  "sample_unicode_lower [] = []"
| "sample_unicode_lower (c # d # cs) =
     (if (of_char c :: nat) = 195
      then (if 128 \<le> (of_char d :: nat) \<and> (of_char d :: nat) \<le> 158 \<and> (of_char d :: nat) \<noteq> 151
            then c # char_of ((of_char d :: nat) + 32) # sample_unicode_lower cs
            else c # d # sample_unicode_lower cs)
      else if (of_char c :: nat) = 194 then c # d # sample_unicode_lower cs
      else lowerByte c # sample_unicode_lower (d # cs))"
| "sample_unicode_lower [c] = [lowerByte c]"

text \<open>
  The transport answers 200 with the body \<open>hello\<close>; the stream hands over its bytes
  once. The multipart writer and the file system fail on marked inputs, so that every
  error branch of SetForm can be run: the field name \<open>closed\<close> cannot start a part,
  the field name \<open>broken\<close> cannot be written, \<open>/wrong/path\<close> does not exist,
  \<open>/tmp/dir\<close> opens but cannot be read, and what \<open>/tmp/big\<close> holds cannot be
  written into a part. The file list names the missing path in its second map.
\<close>

definition sample_response :: "bytes http_response" where
  "sample_response =
     \<lparr>StatusCode = 200, RespHeader = Some (Map.empty(''Content-Type'' \<mapsto> [''text/plain''])),
      RespBody = Some ''hello''\<rparr>"

definition sample_net :: "bytes net_ops" where
  "sample_net =
     \<lparr>url_Parse = sample_parse,
      client_Do = (\<lambda>c ts rq. Inr sample_response),
      unicode_lower = sample_unicode_lower\<rparr>"

definition sample_world :: world where
  "sample_world = \<lparr>transports = [zero_Transport], files = Map.empty, trace = []\<rparr>"

definition sample_tls :: tls_config where
  "sample_tls = TLSConfig True"

text \<open>
  Builders: one that New made and a failed SetProxy left with an error, the zero builder
  \<open>new(Req)\<close>, the literal \<open>&Req{err: ...}\<close> of the tests, and a builder
  whose content length was set without a GetBody.
\<close>

definition failed_builder :: Req where
  "failed_builder = (New ''/Files/Report'')\<lparr>err := Some (sample_parse_error ''%zz'' ''%zz'')\<rparr>"

definition bare_builder :: Req where
  "bare_builder = \<lparr>request = None, client = None, address = [], err = None\<rparr>"

definition bare_failed :: Req where
  "bare_failed = bare_builder\<lparr>err := Some (Err ''Test Error'')\<rparr>"

definition unreplayable_builder :: Req where
  "unreplayable_builder =
     \<lparr>request = Some \<lparr>Method = ''GET'', Header = Some Map.empty, Body = None, GetBody = None,
                       ContentLength = 5, URL = None\<rparr>,
      client = Some \<lparr>ClientTransport = Some DefaultTransport, Timeout = second * 30\<rparr>,
      address = ''a'',
      err = None\<rparr>"

definition sample_mp :: "bytes multipart_ops" where
  "sample_mp =
     \<lparr>mp_NewWriter = [],
      mp_CreateFormFile =
        (\<lambda>buf k v. if k = ''closed'' then Inl (Err ''multipart: cannot create part'')
                   else Inr (buf @ ''--b;file '' @ k @ '';'' @ v @ '';'')),
      mp_PartWrite = (\<lambda>buf d. if d = ''unwritable'' then Inl (Err ''short write'') else Inr (buf @ d)),
      mp_WriteField =
        (\<lambda>buf k v. if k = ''broken'' then Inl (Err ''cannot write field'')
                   else Inr (buf @ ''--b;field '' @ k @ '';'' @ v)),
      mp_Close = (\<lambda>buf. Inr (buf @ ''--b--'')),
      mp_Bytes = (\<lambda>buf. buf),
      mp_FormDataContentType = (\<lambda>buf. ''multipart/form-data; boundary=b'')\<rparr>"


definition sample_open_error :: error where
  "sample_open_error = Err ''open /wrong/path: no such file or directory''"

definition sample_read_error :: error where
  "sample_read_error = Err ''read /tmp/dir: is a directory''"

definition sample_os :: os_ops where
  "sample_os =
     \<lparr>os_Open = (\<lambda>p. if p = ''/wrong/path'' then Some sample_open_error else None),
      file_Read = (\<lambda>p. if p = ''/tmp/dir'' then Inl sample_read_error
                       else if p = ''/tmp/big'' then Inr ''unwritable''
                       else Inr ''file content''),
      os_Create = (\<lambda>p. if p = ''/wrong/path'' then Some sample_open_error else None),
      file_Write = (\<lambda>p d. None),
      file_Sync = (\<lambda>p. None)\<rparr>"

definition sample_stream :: "bytes stream_ops" where
  "sample_stream = \<lparr>ioutil_ReadAll = (\<lambda>s. (Inr s, [])), body_Close = (\<lambda>s. (None, s))\<rparr>"

definition sample_view :: "bytes Response" where
  "sample_view = \<lparr>resp = Some sample_response, data = []\<rparr>"

definition after_Body :: "(error + bytes) \<times> bytes Response \<times> world" where
  "after_Body = Response_Body sample_stream sample_view sample_world"

definition after_Body_Close :: "error option \<times> bytes Response \<times> world" where
  "after_Body_Close = Response_Close sample_stream (fst (snd after_Body)) (snd (snd after_Body))"

text \<open>
  Inputs for the download: views with an empty body, with a given Content-Disposition
  and with no response at all, a media type parser for the two dispositions used, and
  the view and world a successful download leaves behind.
\<close>

definition empty_view :: "bytes Response" where
  "empty_view = \<lparr>resp = Some (sample_response\<lparr>RespBody := Some []\<rparr>), data = []\<rparr>"






section \<open>Basic facts\<close>





lemma ToLower_ascii: "isASCII a \<Longrightarrow> ToLower u a = map lowerByte a"
  by (simp add: ToLower_def)



lemma canonical_Content_Type: "CanonicalMIMEHeaderKey ''Content-Type'' = ''Content-Type''"
  by code_simp

lemma canonical_Content_Disposition:
  "CanonicalMIMEHeaderKey ''Content-Disposition'' = ''Content-Disposition''"
  by code_simp

lemma generateURL_eq:
  "generateURL ops a w
     = (url_Parse ops (ToLower (unicode_lower ops) a), emit (EvUrlParse (ToLower (unicode_lower ops) a)) w)"
  by (simp add: generateURL_def Let_def split: sum.splits)

lemma sample_parse_bad: "sample_parse ''%zz'' = Inl (sample_parse_error ''%zz'' ''%zz'')"
  by code_simp

lemma sample_parse_percent: "sample_parse ''%'' = Inl (sample_parse_error ''%'' ''%'')"
  by code_simp

lemma sample_parse_proxy:
  "sample_parse ''/proxy'' = Inr \<lparr>Scheme = [], Host = [], Path = ''/proxy'', RawQuery = [], Fragment = []\<rparr>"
  by code_simp



lemma failed_builder_request:
  "request failed_builder
     = Some \<lparr>Method = ''GET'', Header = Some Map.empty, Body = None, GetBody = None,
              ContentLength = 0, URL = None\<rparr>"
  by (simp add: failed_builder_def New_def)

lemma failed_builder_client:
  "client failed_builder = Some \<lparr>ClientTransport = Some DefaultTransport, Timeout = second * 30\<rparr>"
  by (simp add: failed_builder_def New_def)


section \<open>The first error stops dispatch\<close>

text \<open>
  C3, as stated, fails. PostJSON sets the content type before send looks at the err
  field, and setting it goes through the request pointer. On the builder the tests
  write as a literal with nothing but an error, and on the zero builder after a SetProxy
  call whose URL does not parse, PostJSON panics instead of returning the error.
\<close>

theorem PostJSON_panics_counterexample:
  "err bare_failed = Some (Err ''Test Error'')
   \<and> PostJSON sample_net bare_failed sample_world = None
   \<and> SetProxy sample_net ''%zz'' bare_builder sample_world
       = Some (bare_builder\<lparr>err := Some (sample_parse_error ''%zz'' ''%zz'')\<rparr>,
               emit (EvUrlParse ''%zz'') sample_world)
   \<and> PostJSON sample_net (bare_builder\<lparr>err := Some (sample_parse_error ''%zz'' ''%zz'')\<rparr>) sample_world = None"
  by (simp add: bare_failed_def bare_builder_def PostJSON_def SetContentType_def SetProxy_def
      sample_net_def sample_parse_bad)

text \<open>
  C3, amended. When the builder's err field holds an error, Get, Post, Put and Delete
  return exactly that error and no response, and leave the builder and the world as they
  were: the trace gains no url.Parse and no Client.Do call; this holds for every builder,
  with or without request and client. PostJSON does the same on every builder that has
  its request with a header map, as every builder made by New has; the builder it
  leaves behind carries the JSON content type it set first.
\<close>

theorem verbs_return_first_error:
  assumes "err r = Some e"
  shows "Get ops r w = Some (Inl e, r, w) \<and> Post ops r w = Some (Inl e, r, w)
     \<and> Put ops r w = Some (Inl e, r, w) \<and> Delete ops r w = Some (Inl e, r, w)
     \<and> (request r = Some rq \<and> Header rq = Some h
          \<longrightarrow> PostJSON ops r w
                = Some (Inl e,
                        r\<lparr>request := Some (rq\<lparr>Header := Some (h(''Content-Type'' \<mapsto> [''application/json'']))\<rparr>)\<rparr>,
                        w))"
  using assms
  by (simp add: Get_def Post_def Put_def Delete_def PostJSON_def send_def SetContentType_def
      Header_Set_def canonical_Content_Type)

theorem verbs_return_first_error_witness:
  "err failed_builder = Some (sample_parse_error ''%zz'' ''%zz'')
   \<and> Get sample_net failed_builder sample_world
       = Some (Inl (sample_parse_error ''%zz'' ''%zz''), failed_builder, sample_world)
   \<and> PostJSON sample_net failed_builder sample_world
       = Some (Inl (sample_parse_error ''%zz'' ''%zz''),
               failed_builder\<lparr>request :=
                 Some \<lparr>Method = ''GET'', Header = Some (Map.empty(''Content-Type'' \<mapsto> [''application/json''])),
                       Body = None, GetBody = None, ContentLength = 0, URL = None\<rparr>\<rparr>,
               sample_world)
   \<and> err bare_failed = Some (Err ''Test Error'')
   \<and> Get sample_net bare_failed sample_world = Some (Inl (Err ''Test Error''), bare_failed, sample_world)"
proof -
  have h: "err failed_builder = Some (sample_parse_error ''%zz'' ''%zz'')"
    by (simp add: failed_builder_def)
  have q: "request failed_builder
     = Some \<lparr>Method = ''GET'', Header = Some Map.empty, Body = None, GetBody = None,
              ContentLength = 0, URL = None\<rparr>
     \<and> Header \<lparr>Method = ''GET'', Header = Some Map.empty, Body = None, GetBody = None,
              ContentLength = 0, URL = None\<rparr> = Some Map.empty"
    by (simp add: failed_builder_request)
  have b: "err bare_failed = Some (Err ''Test Error'')"
    by (simp add: bare_failed_def)
  from q verbs_return_first_error [OF h, where ops = sample_net and w = sample_world
      and rq = "\<lparr>Method = ''GET'', Header = Some Map.empty, Body = None, GetBody = None,
              ContentLength = 0, URL = None\<rparr>" and h = Map.empty]
  have c1: "Get sample_net failed_builder sample_world
       = Some (Inl (sample_parse_error ''%zz'' ''%zz''), failed_builder, sample_world)
   \<and> PostJSON sample_net failed_builder sample_world
       = Some (Inl (sample_parse_error ''%zz'' ''%zz''),
               failed_builder\<lparr>request :=
                 Some \<lparr>Method = ''GET'', Header = Some (Map.empty(''Content-Type'' \<mapsto> [''application/json''])),
                       Body = None, GetBody = None, ContentLength = 0, URL = None\<rparr>\<rparr>,
               sample_world)"
    by simp
  from verbs_return_first_error [OF b, where ops = sample_net and w = sample_world]
  have c2: "Get sample_net bare_failed sample_world = Some (Inl (Err ''Test Error''), bare_failed, sample_world)"
    by blast
  from h b c1 c2 show ?thesis
    by blast
qed

text \<open>
  C4. With no recorded error, a positive content length and a nil GetBody, send returns the
  GetBody error and no response, and builder and world stay as they were, so neither the
  parser nor the transport is called. With a content length of zero the check is passed:
  whatever send returns, the next call in the trace is url.Parse on the lower-cased
  address, and an error it returns is the one the parser or the transport answered; with
  a client present send does return.
\<close>

theorem send_GetBody_invariant:
  "(err r = None \<and> request r = Some rq \<and> ContentLength rq > 0 \<and> GetBody rq = None
      \<longrightarrow> send ops m r w = Some (Inl GetBody_nil_error, r, w))
   \<and> (err r = None \<and> request r = Some rq \<and> ContentLength rq = 0
      \<longrightarrow> (\<forall>res ra wa. send ops m r w = Some (res, ra, wa)
              \<longrightarrow> (\<exists>rest. trace wa
                        = trace w @ EvUrlParse (ToLower (unicode_lower ops) (address r)) # rest)
                \<and> (\<forall>x. res = Inl x
                      \<longrightarrow> url_Parse ops (ToLower (unicode_lower ops) (address r)) = Inl x
                        \<or> (\<exists>u cl. url_Parse ops (ToLower (unicode_lower ops) (address r)) = Inr u
                             \<and> client r = Some cl
                             \<and> client_Do ops cl (transports w) (rq\<lparr>Method := m, URL := Some u\<rparr>) = Inl x)))
        \<and> (client r = Some cl \<longrightarrow> (\<exists>res ra wa. send ops m r w = Some (res, ra, wa))))"
  by (auto simp add: send_def generateURL_def emit_def Let_def split: sum.splits option.splits)

theorem send_GetBody_invariant_witness:
  "err unreplayable_builder = None
   \<and> request unreplayable_builder
       = Some \<lparr>Method = ''GET'', Header = Some Map.empty, Body = None, GetBody = None,
                ContentLength = 5, URL = None\<rparr>
   \<and> send sample_net ''POST'' unreplayable_builder sample_world
       = Some (Inl GetBody_nil_error, unreplayable_builder, sample_world)
   \<and> err (New ''%'') = None
   \<and> send sample_net ''GET'' (New ''%'') sample_world
       = Some (Inl (sample_parse_error ''%'' ''%''),
               (New ''%'')\<lparr>request := Some \<lparr>Method = ''GET'', Header = Some Map.empty, Body = None,
                    GetBody = None, ContentLength = 0, URL = None\<rparr>\<rparr>,
               sample_world\<lparr>trace := [EvUrlParse ''%'']\<rparr>)
   \<and> (\<exists>rest. trace (sample_world\<lparr>trace := [EvUrlParse ''%'']\<rparr>)
          = trace sample_world @ EvUrlParse (ToLower (unicode_lower sample_net) (address (New ''%''))) # rest)"
proof -
  let ?rq = "\<lparr>Method = ''GET'', Header = Some Map.empty, Body = None, GetBody = None,
                ContentLength = 5, URL = None\<rparr>"
  let ?rn = "\<lparr>Method = ''GET'', Header = Some Map.empty, Body = None, GetBody = None,
                ContentLength = 0, URL = None\<rparr>"
  have h1: "err unreplayable_builder = None \<and> request unreplayable_builder = Some ?rq
      \<and> ContentLength ?rq > 0 \<and> GetBody ?rq = None"
    by (simp add: unreplayable_builder_def)
  have h2: "err (New ''%'') = None \<and> request (New ''%'') = Some ?rn \<and> ContentLength ?rn = 0"
    by (simp add: New_def)
  have low: "ToLower sample_unicode_lower ''%'' = ''%''"
    by code_simp
  have run: "send sample_net ''GET'' (New ''%'') sample_world
       = Some (Inl (sample_parse_error ''%'' ''%''),
               (New ''%'')\<lparr>request := Some ?rn\<rparr>,
               sample_world\<lparr>trace := [EvUrlParse ''%'']\<rparr>)"
    by (simp add: send_def generateURL_eq low New_def sample_net_def sample_parse_percent emit_def
        sample_world_def Let_def)
  from h1 send_GetBody_invariant [where r = unreplayable_builder and rq = ?rq and ops = sample_net
      and m = "''POST''" and w = sample_world]
  have c1: "send sample_net ''POST'' unreplayable_builder sample_world
       = Some (Inl GetBody_nil_error, unreplayable_builder, sample_world)"
    by blast
  from h2 run send_GetBody_invariant [where r = "New ''%''" and rq = ?rn and ops = sample_net
      and m = "''GET''" and w = sample_world]
  have c2: "\<exists>rest. trace (sample_world\<lparr>trace := [EvUrlParse ''%'']\<rparr>)
          = trace sample_world @ EvUrlParse (ToLower (unicode_lower sample_net) (address (New ''%''))) # rest"
    by blast
  from h1 h2 run c1 c2 show ?thesis
    by blast
qed

section \<open>The address is looked at only by dispatch\<close>









section \<open>SetProxy replaces the transport\<close>

text \<open>
  C9. When url.Parse accepts the proxy URL, SetProxy on a builder with its client
  allocates a transport at an address that was not in use, whose fields are all zero
  except Proxy, and points the client at it; nothing else of the builder changes and the
  transports that existed keep their contents. Whatever transport the client pointed at
  before (the default one, one set by SetTransport, with or without a TLS configuration
  written by SetTLSConfig), the client's transport now has no TLS configuration.
\<close>

theorem SetProxy_fresh_transport:
  assumes "url_Parse ops u = Inr p" and "client r = Some cl"
  shows "SetProxy ops u r w =
           Some (r\<lparr>client := Some (cl\<lparr>ClientTransport := Some (length (transports w))\<rparr>)\<rparr>,
                 w\<lparr>transports := transports w @ [zero_Transport\<lparr>Proxy := Some p\<rparr>],
                   trace := trace w @ [EvUrlParse u]\<rparr>)
     \<and> (\<forall>ra wa. SetProxy ops u r w = Some (ra, wa)
           \<longrightarrow> client_transport ra wa = Some \<lparr>TLSClientConfig = None, Proxy = Some p, MaxIdleConns = 0\<rparr>
             \<and> allocated wa (length (transports w))
             \<and> take (length (transports w)) (transports wa) = transports w)
     \<and> \<not> allocated w (length (transports w))"
  using assms
  by (simp add: SetProxy_def emit_def client_transport_def zero_Transport_def Let_def allocated_def)

theorem SetProxy_fresh_transport_witness:
  "url_Parse sample_net ''/proxy'' = Inr \<lparr>Scheme = [], Host = [], Path = ''/proxy'', RawQuery = [], Fragment = []\<rparr>
   \<and> (case SetTLSConfig (Some sample_tls) (New ''a'') sample_world of
         None \<Rightarrow> False
       | Some (r1, w1) \<Rightarrow>
           map_option TLSClientConfig (client_transport r1 w1) = Some (Some sample_tls)
           \<and> (case SetProxy sample_net ''/proxy'' r1 w1 of
                 None \<Rightarrow> False
               | Some (r2, w2) \<Rightarrow>
                   client_transport r2 w2
                     = Some \<lparr>TLSClientConfig = None,
                             Proxy = Some \<lparr>Scheme = [], Host = [], Path = ''/proxy'', RawQuery = [], Fragment = []\<rparr>,
                             MaxIdleConns = 0\<rparr>))"
proof -
  have h: "url_Parse sample_net ''/proxy'' = Inr \<lparr>Scheme = [], Host = [], Path = ''/proxy'', RawQuery = [], Fragment = []\<rparr>"
    by (simp add: sample_net_def sample_parse_proxy)
  have c: "client (New ''a'') = Some \<lparr>ClientTransport = Some DefaultTransport, Timeout = second * 30\<rparr>"
    by (simp add: New_def)
  show ?thesis
    using h SetProxy_fresh_transport [OF h c]
    by (simp add: SetTLSConfig_def New_def sample_world_def DefaultTransport_def client_transport_def zero_Transport_def)
qed

section \<open>Configuration calls after an error\<close>

lemma set_header_loop_other:
  "CanonicalMIMEHeaderKey k \<notin> (\<lambda>kv. CanonicalMIMEHeaderKey (fst kv)) ` set hs
     \<Longrightarrow> set_header_loop h hs (CanonicalMIMEHeaderKey k) = h (CanonicalMIMEHeaderKey k)"
  by (induction hs arbitrary: h) (auto simp add: Header_Set_def)

lemma set_header_loop_get:
  "distinct (map (\<lambda>kv. CanonicalMIMEHeaderKey (fst kv)) hs) \<Longrightarrow> (k, v) \<in> set hs
     \<Longrightarrow> Header_Get (set_header_loop h hs) k = v"
proof (induction hs arbitrary: h)
  case Nil
  then show ?case by simp
next
  case (Cons x xs)
  obtain k' v' where x: "x = (k', v')"
    by (cases x) auto
  show ?case
  proof (cases "(k, v) = x")
    case True
    with Cons.prems x have "CanonicalMIMEHeaderKey k \<notin> (\<lambda>kv. CanonicalMIMEHeaderKey (fst kv)) ` set xs"
      by auto
    from set_header_loop_other [OF this] True x show ?thesis
      by (simp add: Header_Get_def Header_Set_def)
  next
    case False
    with Cons.prems have "(k, v) \<in> set xs" and "distinct (map (\<lambda>kv. CanonicalMIMEHeaderKey (fst kv)) xs)"
      by simp_all
    with Cons.IH x show ?thesis
      by simp
  qed
qed

text \<open>
  C1, as stated, fails. On a builder whose err field is set, SetTimeout still changes the
  timeout and SetContentType still sets the header, and a SetProxy call whose URL does
  not parse replaces the recorded error by its own.
\<close>

theorem config_calls_after_error_counterexample:
  "err failed_builder = Some (sample_parse_error ''%zz'' ''%zz'')
   \<and> SetTimeout 5 failed_builder \<noteq> Some failed_builder
   \<and> SetContentType ''text/plain'' failed_builder \<noteq> Some failed_builder
   \<and> SetProxy sample_net ''%'' failed_builder sample_world
       = Some (failed_builder\<lparr>err := Some (sample_parse_error ''%'' ''%'')\<rparr>,
               emit (EvUrlParse ''%'') sample_world)
   \<and> sample_parse_error ''%'' ''%'' \<noteq> sample_parse_error ''%zz'' ''%zz''"
proof -
  have e: "err failed_builder = Some (sample_parse_error ''%zz'' ''%zz'')"
    by (simp add: failed_builder_def)
  have t: "SetTimeout 5 failed_builder
      = Some (failed_builder\<lparr>client := Some \<lparr>ClientTransport = Some DefaultTransport, Timeout = 5\<rparr>\<rparr>)"
    by (simp add: failed_builder_def SetTimeout_def New_def)
  have t': "client failed_builder \<noteq> Some \<lparr>ClientTransport = Some DefaultTransport, Timeout = 5\<rparr>"
    by (simp add: failed_builder_def New_def second_def)
  have tn: "SetTimeout 5 failed_builder \<noteq> Some failed_builder"
  proof
    assume "SetTimeout 5 failed_builder = Some failed_builder"
    with t have "failed_builder\<lparr>client := Some \<lparr>ClientTransport = Some DefaultTransport, Timeout = 5\<rparr>\<rparr>
        = failed_builder"
      by simp
    then have "client (failed_builder\<lparr>client := Some \<lparr>ClientTransport = Some DefaultTransport, Timeout = 5\<rparr>\<rparr>)
        = client failed_builder"
      by simp
    with t' show False
      by simp
  qed
  have c: "SetContentType ''text/plain'' failed_builder
      = Some (failed_builder\<lparr>request := Some \<lparr>Method = ''GET'',
            Header = Some (Map.empty(''Content-Type'' \<mapsto> [''text/plain''])), Body = None, GetBody = None,
            ContentLength = 0, URL = None\<rparr>\<rparr>)"
    by (simp add: failed_builder_def SetContentType_def New_def Header_Set_def canonical_Content_Type)
  have cn: "SetContentType ''text/plain'' failed_builder \<noteq> Some failed_builder"
  proof
    assume "SetContentType ''text/plain'' failed_builder = Some failed_builder"
    with c have "request (failed_builder\<lparr>request := Some \<lparr>Method = ''GET'',
            Header = Some (Map.empty(''Content-Type'' \<mapsto> [''text/plain''])), Body = None, GetBody = None,
            ContentLength = 0, URL = None\<rparr>\<rparr>) = request failed_builder"
      by simp
    then have "Map.empty(''Content-Type'' \<mapsto> [''text/plain'']) = (Map.empty :: header)"
      by (simp add: failed_builder_request)
    then have "(Map.empty(''Content-Type'' \<mapsto> [''text/plain''])) ''Content-Type''
        = (Map.empty :: header) ''Content-Type''"
      by (rule arg_cong)
    then show False
      by simp
  qed
  have p: "SetProxy sample_net ''%'' failed_builder sample_world
       = Some (failed_builder\<lparr>err := Some (sample_parse_error ''%'' ''%'')\<rparr>,
               emit (EvUrlParse ''%'') sample_world)"
    by (simp add: SetProxy_def sample_net_def sample_parse_percent)
  have d: "sample_parse_error ''%'' ''%'' \<noteq> sample_parse_error ''%zz'' ''%zz''"
    by (simp add: sample_parse_error_def quoted_def)
  from e tn cn p d show ?thesis
    by blast
qed

text \<open>
  C1, amended. On a builder whose err field holds an error, SetForm returns the builder
  and the world unchanged. The other calls do what they do on any builder. With the
  request and its header map present, SetHeaders stores every entry of a non-empty map
  (each key then reads back its value when the canonical keys are distinct) and returns
  the builder as it is for an empty one, SetContentType and SetBodyXML store the content
  type, and SetBody stores body, GetBody and content length. With the client present,
  SetTimeout and SetTransport store their argument, SetTLSConfig writes the
  configuration into the transport the client points at when there is one, and SetProxy
  with a URL that parses installs a new transport. None of them touches the err field: a
  builder that differs in request or client only still holds the recorded error.
\<close>

theorem first_error_preserved:
  assumes "err r = Some e"
  shows "SetForm mp os fileMaps fieldMaps r w = Some (r, w)
     \<and> (request r = Some rq \<and> Header rq = Some h
        \<longrightarrow> SetHeaders hs r
              = Some (if hs = [] then r
                      else r\<lparr>request := Some (rq\<lparr>Header := Some (set_header_loop h hs)\<rparr>)\<rparr>)
          \<and> (distinct (map (\<lambda>kv. CanonicalMIMEHeaderKey (fst kv)) hs) \<and> (k, v) \<in> set hs
              \<longrightarrow> Header_Get (set_header_loop h hs) k = v)
          \<and> SetContentType ct r
              = Some (r\<lparr>request := Some (rq\<lparr>Header := Some (h(''Content-Type'' \<mapsto> [ct]))\<rparr>)\<rparr>)
          \<and> SetBodyXML r
              = Some (r\<lparr>request := Some (rq\<lparr>Header :=
                          Some (h(''Content-Type'' \<mapsto> [''application/xml; charset=UTF-8'']))\<rparr>)\<rparr>))
     \<and> (request r = Some rq
        \<longrightarrow> SetBody b r
              = Some (r\<lparr>request := Some (rq\<lparr>Body := Some b, GetBody := Some b,
                                             ContentLength := int (length b)\<rparr>)\<rparr>))
     \<and> (client r = Some cl
        \<longrightarrow> SetTimeout d r = Some (r\<lparr>client := Some (cl\<lparr>Timeout := d\<rparr>)\<rparr>)
          \<and> SetTransport t r = Some (r\<lparr>client := Some (cl\<lparr>ClientTransport := t\<rparr>)\<rparr>)
          \<and> (ClientTransport cl = Some p \<and> p < length (transports w)
              \<longrightarrow> SetTLSConfig c r w
                    = Some (r, w\<lparr>transports :=
                                   (transports w)[p := (transports w ! p)\<lparr>TLSClientConfig := c\<rparr>]\<rparr>))
          \<and> (url_Parse ops u = Inr pu
              \<longrightarrow> SetProxy ops u r w
                    = Some (r\<lparr>client := Some (cl\<lparr>ClientTransport := Some (length (transports w))\<rparr>)\<rparr>,
                            w\<lparr>transports := transports w @ [zero_Transport\<lparr>Proxy := Some pu\<rparr>],
                              trace := trace w @ [EvUrlParse u]\<rparr>)))
     \<and> err (r\<lparr>request := rx\<rparr>) = Some e \<and> err (r\<lparr>client := cx\<rparr>) = Some e"
proof -
  have form: "SetForm mp os fileMaps fieldMaps r w = Some (r, w)"
    using assms by (simp add: SetForm_def)
  have heads: "SetHeaders hs r
              = Some (if hs = [] then r
                      else r\<lparr>request := Some (rq\<lparr>Header := Some (set_header_loop h hs)\<rparr>)\<rparr>)
          \<and> SetContentType ct r
              = Some (r\<lparr>request := Some (rq\<lparr>Header := Some (h(''Content-Type'' \<mapsto> [ct]))\<rparr>)\<rparr>)
          \<and> SetBodyXML r
              = Some (r\<lparr>request := Some (rq\<lparr>Header :=
                          Some (h(''Content-Type'' \<mapsto> [''application/xml; charset=UTF-8'']))\<rparr>)\<rparr>)"
    if "request r = Some rq" and "Header rq = Some h"
    using that
    by (simp add: SetHeaders_def SetContentType_def SetBodyXML_def Header_Set_def canonical_Content_Type)
  have body: "SetBody b r
              = Some (r\<lparr>request := Some (rq\<lparr>Body := Some b, GetBody := Some b,
                                             ContentLength := int (length b)\<rparr>)\<rparr>)"
    if "request r = Some rq"
    using that by (simp add: SetBody_def)
  have cli: "SetTimeout d r = Some (r\<lparr>client := Some (cl\<lparr>Timeout := d\<rparr>)\<rparr>)
          \<and> SetTransport t r = Some (r\<lparr>client := Some (cl\<lparr>ClientTransport := t\<rparr>)\<rparr>)
          \<and> (ClientTransport cl = Some p \<and> p < length (transports w)
              \<longrightarrow> SetTLSConfig c r w
                    = Some (r, w\<lparr>transports :=
                                   (transports w)[p := (transports w ! p)\<lparr>TLSClientConfig := c\<rparr>]\<rparr>))
          \<and> (url_Parse ops u = Inr pu
              \<longrightarrow> SetProxy ops u r w
                    = Some (r\<lparr>client := Some (cl\<lparr>ClientTransport := Some (length (transports w))\<rparr>)\<rparr>,
                            w\<lparr>transports := transports w @ [zero_Transport\<lparr>Proxy := Some pu\<rparr>],
                              trace := trace w @ [EvUrlParse u]\<rparr>))"
    if "client r = Some cl"
    using that by (simp add: SetTimeout_def SetTransport_def SetTLSConfig_def SetProxy_def emit_def Let_def)
  have kept: "err (r\<lparr>request := rx\<rparr>) = Some e \<and> err (r\<lparr>client := cx\<rparr>) = Some e"
    using assms by simp
  from form heads body cli kept set_header_loop_get [of hs k v h] show ?thesis
    by blast
qed

theorem first_error_preserved_witness:
  "err failed_builder = Some (sample_parse_error ''%zz'' ''%zz'')
   \<and> SetForm sample_mp sample_os [[(''file'', ''/tmp/f'')]] [[(''taskId'', ''123456'')]] failed_builder sample_world
       = Some (failed_builder, sample_world)
   \<and> SetHeaders [(''x-token'', ''1'')] failed_builder
       = Some (failed_builder\<lparr>request := Some \<lparr>Method = ''GET'',
            Header = Some (set_header_loop Map.empty [(''x-token'', ''1'')]),
            Body = None, GetBody = None, ContentLength = 0, URL = None\<rparr>\<rparr>)
   \<and> Header_Get (set_header_loop Map.empty [(''x-token'', ''1'')]) ''x-token'' = ''1''
   \<and> SetBody ''abc'' failed_builder
       = Some (failed_builder\<lparr>request := Some \<lparr>Method = ''GET'', Header = Some Map.empty,
            Body = Some ''abc'', GetBody = Some ''abc'', ContentLength = 3, URL = None\<rparr>\<rparr>)
   \<and> SetTimeout 5 failed_builder
       = Some (failed_builder\<lparr>client := Some \<lparr>ClientTransport = Some DefaultTransport, Timeout = 5\<rparr>\<rparr>)
   \<and> SetTransport None failed_builder
       = Some (failed_builder\<lparr>client := Some \<lparr>ClientTransport = None, Timeout = second * 30\<rparr>\<rparr>)
   \<and> SetTLSConfig (Some sample_tls) failed_builder sample_world
       = Some (failed_builder, sample_world\<lparr>transports := [zero_Transport\<lparr>TLSClientConfig := Some sample_tls\<rparr>]\<rparr>)
   \<and> SetProxy sample_net ''/proxy'' failed_builder sample_world
       = Some (failed_builder\<lparr>client := Some \<lparr>ClientTransport = Some 1, Timeout = second * 30\<rparr>\<rparr>,
               sample_world\<lparr>transports := [zero_Transport, zero_Transport\<lparr>Proxy :=
                   Some \<lparr>Scheme = [], Host = [], Path = ''/proxy'', RawQuery = [], Fragment = []\<rparr>\<rparr>],
                 trace := [EvUrlParse ''/proxy'']\<rparr>)"
proof -
  let ?rq = "\<lparr>Method = ''GET'', Header = Some Map.empty, Body = None, GetBody = None,
              ContentLength = 0, URL = None\<rparr>"
  let ?cl = "\<lparr>ClientTransport = Some DefaultTransport, Timeout = second * 30\<rparr>"
  let ?pu = "\<lparr>Scheme = [], Host = [], Path = ''/proxy'', RawQuery = [], Fragment = []\<rparr>"
  have h: "err failed_builder = Some (sample_parse_error ''%zz'' ''%zz'')"
    by (simp add: failed_builder_def)
  have q: "request failed_builder = Some ?rq \<and> Header ?rq = Some Map.empty"
    by (simp add: failed_builder_request)
  have c: "client failed_builder = Some ?cl \<and> ClientTransport ?cl = Some 0
      \<and> 0 < length (transports sample_world)"
    by (simp add: failed_builder_client DefaultTransport_def sample_world_def)
  have p: "url_Parse sample_net ''/proxy'' = Inr ?pu"
    by (simp add: sample_net_def sample_parse_proxy)
  have hs: "distinct (map (\<lambda>kv. CanonicalMIMEHeaderKey (fst kv)) [(''x-token'', ''1'')])
      \<and> (''x-token'', ''1'') \<in> set [(''x-token'', ''1'')] \<and> [(''x-token'', ''1'')] \<noteq> []"
    by simp
  note inst = first_error_preserved [OF h, where mp = sample_mp and os = sample_os
      and fileMaps = "[[(''file'', ''/tmp/f'')]]" and fieldMaps = "[[(''taskId'', ''123456'')]]"
      and w = sample_world and rq = ?rq and h = Map.empty and hs = "[(''x-token'', ''1'')]"
      and k = "''x-token''" and v = "''1''" and b = "''abc''" and cl = ?cl and d = 5 and t = None
      and p = 0 and c = "Some sample_tls" and ops = sample_net and u = "''/proxy''" and pu = ?pu]
  from inst have c1: "SetForm sample_mp sample_os [[(''file'', ''/tmp/f'')]] [[(''taskId'', ''123456'')]]
      failed_builder sample_world = Some (failed_builder, sample_world)"
    by blast
  from inst q hs have c2: "SetHeaders [(''x-token'', ''1'')] failed_builder
       = Some (failed_builder\<lparr>request := Some (?rq\<lparr>Header := Some (set_header_loop Map.empty [(''x-token'', ''1'')])\<rparr>)\<rparr>)
     \<and> Header_Get (set_header_loop Map.empty [(''x-token'', ''1'')]) ''x-token'' = ''1''"
    by simp
  from inst q have c3: "SetBody ''abc'' failed_builder
       = Some (failed_builder\<lparr>request := Some (?rq\<lparr>Body := Some ''abc'', GetBody := Some ''abc'',
            ContentLength := int (length ''abc'')\<rparr>)\<rparr>)"
    by blast
  from inst c have c4: "SetTimeout 5 failed_builder = Some (failed_builder\<lparr>client := Some (?cl\<lparr>Timeout := 5\<rparr>)\<rparr>)
     \<and> SetTransport None failed_builder = Some (failed_builder\<lparr>client := Some (?cl\<lparr>ClientTransport := None\<rparr>)\<rparr>)
     \<and> SetTLSConfig (Some sample_tls) failed_builder sample_world
         = Some (failed_builder, sample_world\<lparr>transports :=
              (transports sample_world)[0 := (transports sample_world ! 0)\<lparr>TLSClientConfig := Some sample_tls\<rparr>]\<rparr>)"
    by blast
  from inst c p have c5: "SetProxy sample_net ''/proxy'' failed_builder sample_world
       = Some (failed_builder\<lparr>client := Some (?cl\<lparr>ClientTransport := Some (length (transports sample_world))\<rparr>)\<rparr>,
               sample_world\<lparr>transports := transports sample_world @ [zero_Transport\<lparr>Proxy := Some ?pu\<rparr>],
                 trace := trace sample_world @ [EvUrlParse ''/proxy'']\<rparr>)"
    by blast
  from h c1 c2 c3 c4 c5 show ?thesis
    by (simp add: sample_world_def)
qed

section \<open>URL generation and letter case\<close>




section \<open>A failing form entry\<close>












section \<open>The cached body and the stream\<close>

lemma after_Body_eq:
  "after_Body = (Inr ''hello'', \<lparr>resp = Some (sample_response\<lparr>RespBody := Some []\<rparr>), data = ''hello''\<rparr>,
      sample_world\<lparr>trace := [EvBodyReadAll, EvBodyClose]\<rparr>)"
  by (simp add: after_Body_def Response_Body_def readBody_def sample_view_def sample_response_def
      sample_stream_def set_stream_def emit_def sample_world_def)

lemma readBody_cached:
  assumes "data r \<noteq> []"
  shows "readBody so r w = (Inr (data r), r, w)"
  using assms by (simp add: readBody_def)

lemma readBody_success_data:
  assumes "readBody so r w = (Inr b, r1, w1)"
  shows "data r1 = b"
  using assms
  by (auto simp add: readBody_def set_stream_def split: if_splits option.splits prod.splits sum.splits)

lemma readBody_first_trace:
  assumes "readBody so r w = (Inr b, r1, w1)" and "data r = []"
  shows "w1 = emit EvBodyClose (emit EvBodyReadAll w)"
  using assms
  by (auto simp add: readBody_def split: if_splits option.splits prod.splits sum.splits)

lemma readBody_files: "files (snd (snd (readBody so r w))) = files w"
  by (auto simp add: readBody_def emit_def split: if_splits option.splits prod.splits sum.splits)

lemma SaveFile_cached:
  assumes "data r \<noteq> []"
  shows "SaveFile so os p r w = (fst (write_file os p (data r) w), r, snd (write_file os p (data r) w))"
  using assms by (simp add: SaveFile_def readBody_cached split: prod.splits)

lemma DownloadFile_cached:
  assumes "data r \<noteq> []"
  shows "DownloadFile so os lib dir r w = DownloadFile so2 os lib dir r w"
  by (simp add: DownloadFile_def SaveFile_cached [OF assms] Let_def split: option.splits sum.splits)

text \<open>
  A body of zero bytes is not recognised as cached: the second read of such a view goes
  to the stream again.
\<close>

lemma empty_body_read_again:
  "readBody sample_stream empty_view sample_world
     = (Inr [], empty_view, sample_world\<lparr>trace := [EvBodyReadAll, EvBodyClose]\<rparr>)
   \<and> readBody sample_stream empty_view (sample_world\<lparr>trace := [EvBodyReadAll, EvBodyClose]\<rparr>)
     = (Inr [], empty_view,
        sample_world\<lparr>trace := [EvBodyReadAll, EvBodyClose, EvBodyReadAll, EvBodyClose]\<rparr>)"
  by (simp add: readBody_def empty_view_def sample_response_def sample_stream_def set_stream_def
      emit_def sample_world_def)

text \<open>
  C2, as stated, fails. Body on a fresh view reads the stream once and closes it; a Close
  call after that closes the stream a second time, because Close looks only at whether
  the response and its body are nil.
\<close>

theorem stream_closed_twice_counterexample:
  "fst after_Body = Inr ''hello''
   \<and> trace (snd (snd after_Body)) = [EvBodyReadAll, EvBodyClose]
   \<and> fst after_Body_Close = None
   \<and> trace (snd (snd after_Body_Close)) = [EvBodyReadAll, EvBodyClose, EvBodyClose]"
  by (simp add: after_Body_Close_def after_Body_eq Response_Close_def sample_response_def
      sample_stream_def set_stream_def emit_def sample_world_def)

text \<open>
  C2, amended. Once a body read has succeeded with a non-empty body, the view holds
  those bytes: a first read got them with one ReadAll and one Close on the stream, and
  every later Body returns the same bytes and leaves view and world untouched, whatever
  the stream would answer. SaveFile writes the cached bytes and DownloadFile does not
  depend on the stream either. Close closes the stream whenever response and body are
  present, also after the read has closed it.
\<close>

theorem body_cache:
  assumes "readBody so r w = (Inr b, ra, wa)" and "b \<noteq> []"
  shows "data ra = b
     \<and> (data r = [] \<longrightarrow> trace wa = trace w @ [EvBodyReadAll, EvBodyClose])
     \<and> (data r \<noteq> [] \<longrightarrow> ra = r \<and> wa = w)
     \<and> Response_Body sx ra wx = (Inr b, ra, wx)
     \<and> readBody sx ra wx = (Inr b, ra, wx)
     \<and> SaveFile sx os p ra wx = (fst (write_file os p b wx), ra, snd (write_file os p b wx))
     \<and> DownloadFile sx os lib dir ra wx = DownloadFile so os lib dir ra wx
     \<and> fst (snd (DownloadFile sx os lib dir ra wx)) = ra
     \<and> (\<forall>rs s. resp ra = Some rs \<and> RespBody rs = Some s \<longrightarrow>
           trace (snd (snd (Response_Close sx ra wx))) = trace wx @ [EvBodyClose])"
proof -
  have d: "data ra = b"
    using assms(1) by (rule readBody_success_data)
  have ne: "data ra \<noteq> []"
    using d assms(2) by simp
  have first: "data r = [] \<longrightarrow> trace wa = trace w @ [EvBodyReadAll, EvBodyClose]"
    using readBody_first_trace [OF assms(1)] by (simp add: emit_def)
  have again: "data r \<noteq> [] \<longrightarrow> ra = r \<and> wa = w"
    using assms(1) by (auto simp add: readBody_cached)
  have rb: "readBody sx ra wx = (Inr b, ra, wx)"
    using readBody_cached [OF ne] d by simp
  have body: "Response_Body sx ra wx = (Inr b, ra, wx)"
    by (simp add: Response_Body_def rb)
  have save: "SaveFile sx os p ra wx = (fst (write_file os p b wx), ra, snd (write_file os p b wx))"
    using SaveFile_cached [OF ne] d by simp
  have dl: "DownloadFile sx os lib dir ra wx = DownloadFile so os lib dir ra wx"
    using DownloadFile_cached [OF ne] by blast
  have dlview: "fst (snd (DownloadFile sx os lib dir ra wx)) = ra"
    by (simp add: DownloadFile_def SaveFile_cached [OF ne] Let_def split: option.splits sum.splits prod.splits)
  have close: "\<forall>rs s. resp ra = Some rs \<and> RespBody rs = Some s \<longrightarrow>
           trace (snd (snd (Response_Close sx ra wx))) = trace wx @ [EvBodyClose]"
    by (auto simp add: Response_Close_def emit_def split: prod.splits option.splits)
  from d first again rb body save dl dlview close show ?thesis
    by blast
qed

theorem body_cache_witness:
  "readBody sample_stream sample_view sample_world = after_Body
   \<and> fst after_Body = Inr ''hello''
   \<and> ''hello'' \<noteq> []
   \<and> data sample_view = []
   \<and> trace (snd (snd after_Body)) = trace sample_world @ [EvBodyReadAll, EvBodyClose]
   \<and> Response_Body sample_stream (fst (snd after_Body)) (snd (snd after_Body))
       = (Inr ''hello'', fst (snd after_Body), snd (snd after_Body))
   \<and> resp (fst (snd after_Body)) = Some (sample_response\<lparr>RespBody := Some []\<rparr>)
   \<and> RespBody (sample_response\<lparr>RespBody := Some []\<rparr>) = Some []
   \<and> trace (snd (snd (Response_Close sample_stream (fst (snd after_Body)) (snd (snd after_Body)))))
       = trace (snd (snd after_Body)) @ [EvBodyClose]"
proof -
  have rb: "readBody sample_stream sample_view sample_world = after_Body"
    by (simp add: after_Body_def Response_Body_def split: prod.splits sum.splits)
  have h1: "readBody sample_stream sample_view sample_world
      = (Inr ''hello'', fst (snd after_Body), snd (snd after_Body))"
    by (simp add: rb after_Body_eq)
  have h2: "''hello'' \<noteq> []"
    by simp
  have h3: "data sample_view = []"
    by (simp add: sample_view_def)
  have h4: "resp (fst (snd after_Body)) = Some (sample_response\<lparr>RespBody := Some []\<rparr>)
      \<and> RespBody (sample_response\<lparr>RespBody := Some []\<rparr>) = Some []"
    by (simp add: after_Body_eq)
  have f: "fst after_Body = Inr ''hello''"
    by (simp add: after_Body_eq)
  from rb f h2 h3 h4
    body_cache [OF h1 h2, where sx = sample_stream and wx = "snd (snd after_Body)"]
  show ?thesis
    by blast
qed

section \<open>Saving the body to a file\<close>

lemma readBody_files_eq:
  assumes "readBody so r w = (res, ra, wa)"
  shows "files wa = files w"
  using readBody_files [of so r w] assms by simp

lemma write_file_success:
  assumes "os_Create os p = None" and "file_Write os p d = None"
  shows "write_file os p d w
      = (file_Sync os p,
         w\<lparr>files := (files w)(p \<mapsto> d),
           trace := trace w @ [EvCreate p, EvWrite p, EvSync p, EvFileClose p]\<rparr>)"
  using assms by (simp add: write_file_def emit_def Let_def)

lemma empty_view_read:
  "readBody sample_stream empty_view sample_world
     = (Inr [], empty_view, sample_world\<lparr>trace := [EvBodyReadAll, EvBodyClose]\<rparr>)"
  by (simp add: readBody_def empty_view_def sample_response_def sample_stream_def set_stream_def
      emit_def sample_world_def)



lemma download_view_disposition:
  "Header_Get (Map.empty(''Content-Disposition'' \<mapsto> [d])) ''Content-Disposition'' = d"
  by (simp add: Header_Get_def canonical_Content_Disposition)


text \<open>
  C7. When reading the body yields no bytes, SaveFile fails with the empty-file error
  and the file system is as it was before the call: no file is created. When the body is
  non-empty and os.Create and the copy succeed, the file at the path holds exactly the
  body bytes, and SaveFile returns what Sync answered.
\<close>

theorem SaveFile_body:
  "(readBody so r w = (Inr [], ra, wa)
      \<longrightarrow> SaveFile so os p r w = (Some (empty_file_error p), ra, wa) \<and> files wa = files w)
   \<and> (readBody so r w = (Inr d, ra, wa) \<and> d \<noteq> [] \<and> os_Create os p = None \<and> file_Write os p d = None
      \<longrightarrow> SaveFile so os p r w
            = (file_Sync os p, ra,
               wa\<lparr>files := (files w)(p \<mapsto> d),
                  trace := trace wa @ [EvCreate p, EvWrite p, EvSync p, EvFileClose p]\<rparr>)
          \<and> files (snd (snd (SaveFile so os p r w))) p = Some d)"
proof -
  have empty: "SaveFile so os p r w = (Some (empty_file_error p), ra, wa) \<and> files wa = files w"
    if "readBody so r w = (Inr [], ra, wa)"
    using that readBody_files_eq [OF that] by (simp add: SaveFile_def)
  have full: "SaveFile so os p r w
            = (file_Sync os p, ra,
               wa\<lparr>files := (files w)(p \<mapsto> d),
                  trace := trace wa @ [EvCreate p, EvWrite p, EvSync p, EvFileClose p]\<rparr>)"
    if "readBody so r w = (Inr d, ra, wa)" and "d \<noteq> []" and "os_Create os p = None"
      and "file_Write os p d = None"
    using that readBody_files_eq [OF that(1)] by (simp add: SaveFile_def write_file_success)
  from empty full show ?thesis
    by simp
qed

theorem SaveFile_body_witness:
  "readBody sample_stream empty_view sample_world
     = (Inr [], empty_view, sample_world\<lparr>trace := [EvBodyReadAll, EvBodyClose]\<rparr>)
   \<and> SaveFile sample_stream sample_os ''/tmp/out'' empty_view sample_world
     = (Some (empty_file_error ''/tmp/out''), empty_view, sample_world\<lparr>trace := [EvBodyReadAll, EvBodyClose]\<rparr>)
   \<and> readBody sample_stream sample_view sample_world = after_Body
   \<and> fst after_Body = Inr ''hello''
   \<and> os_Create sample_os ''/tmp/out'' = None
   \<and> file_Write sample_os ''/tmp/out'' ''hello'' = None
   \<and> files (snd (snd (SaveFile sample_stream sample_os ''/tmp/out'' sample_view sample_world))) ''/tmp/out''
       = Some ''hello''"
proof -
  have rb: "readBody sample_stream sample_view sample_world = after_Body"
    by (simp add: after_Body_def Response_Body_def split: prod.splits sum.splits)
  have f: "fst after_Body = Inr ''hello''"
    by (simp add: after_Body_eq)
  have h: "readBody sample_stream sample_view sample_world
      = (Inr ''hello'', fst (snd after_Body), snd (snd after_Body))"
    by (simp add: rb after_Body_eq)
  have o: "''hello'' \<noteq> [] \<and> os_Create sample_os ''/tmp/out'' = None
      \<and> file_Write sample_os ''/tmp/out'' ''hello'' = None"
    by (simp add: sample_os_def)
  from empty_view_read
    SaveFile_body [where so = sample_stream and r = empty_view and w = sample_world and os = sample_os
      and p = "''/tmp/out''" and ra = empty_view and wa = "sample_world\<lparr>trace := [EvBodyReadAll, EvBodyClose]\<rparr>"]
  have c1: "SaveFile sample_stream sample_os ''/tmp/out'' empty_view sample_world
     = (Some (empty_file_error ''/tmp/out''), empty_view, sample_world\<lparr>trace := [EvBodyReadAll, EvBodyClose]\<rparr>)"
    by blast
  from h o
    SaveFile_body [where so = sample_stream and r = sample_view and w = sample_world and os = sample_os
      and p = "''/tmp/out''" and d = "''hello''" and ra = "fst (snd after_Body)" and wa = "snd (snd after_Body)"]
  have c2: "files (snd (snd (SaveFile sample_stream sample_os ''/tmp/out'' sample_view sample_world))) ''/tmp/out''
       = Some ''hello''"
    by blast
  from empty_view_read c1 rb f o c2 show ?thesis
    by blast
qed



end
